theory Spec2Isabelle
  imports Main "HOL-Library.AList"
begin

section \<open>The producer of Project Flume: data model\<close>

text \<open>
  This theory embeds \<^verbatim>\<open>src/producer/producer.py\<close>: the timestamp parser and validator,
  the quality filter, the paginated fetch, the endpoint processor with its per-station
  watermarks, and the run orchestrator.

  Conventions of the embedding.
  \<^item> A \<^verbatim>\<open>datetime\<close> is an \<open>instant\<close>: an integer number of microseconds since the epoch,
    in UTC. The year range 1..9999 of \<^verbatim>\<open>datetime\<close> is not modelled, so the
    \<^verbatim>\<open>OverflowError\<close> of date arithmetic outside it does not occur.
  \<^item> \<^verbatim>\<open>datetime.now\<close> is read many times during a run; the model samples the clock once
    per endpoint run (\<open>now_utc\<close> of the environment).
  \<^item> The standard library's parsing cascade (\<^verbatim>\<open>fromisoformat\<close>, then four
    \<^verbatim>\<open>strptime\<close> patterns, every exception caught) is the parameter \<open>fromiso\<close> of the
    environment: the instant a string denotes, or \<open>None\<close>.
  \<^item> The watermark strings of the persisted state are written by \<^verbatim>\<open>isoformat()\<close> and
    read back by \<^verbatim>\<open>parse_iso_to_utc\<close>. \<^verbatim>\<open>fromisoformat\<close> inverts \<^verbatim>\<open>isoformat\<close>
    exactly, so the state holds the instant itself and reading it back is the
    validation step alone (\<open>parse_stored\<close>).
  \<^item> A JSON value read from a feature is \<open>null\<close>, an integer or a string (\<open>jval\<close>);
    floats, booleans, arrays and objects do not occur in the fields the producer reads.
\<close>

type_synonym instant = int

definition minutes :: "int \<Rightarrow> int" where
  "minutes n = n * 60000000"

definition days :: "int \<Rightarrow> int" where
  "days n = n * 86400000000"

datatype jval = JNull | JNum int | JStr string

datatype error = TypeError | TransportError | UploadError | StateStoreError

text \<open>Python truthiness, \<^verbatim>\<open>a or b\<close>, \<^verbatim>\<open>d.get(k)\<close> and \<^verbatim>\<open>str(v)\<close> on JSON values.\<close>

fun truthy :: "jval \<Rightarrow> bool" where
  "truthy JNull = False"
| "truthy (JNum n) = (n \<noteq> 0)"
| "truthy (JStr s) = (s \<noteq> [])"

definition py_or :: "jval \<Rightarrow> jval \<Rightarrow> jval" where
  "py_or a b = (if truthy a then a else b)"

type_synonym props = "string \<rightharpoonup> jval"

definition dict_get :: "props \<Rightarrow> string \<Rightarrow> jval" where
  "dict_get d k = (case d k of None \<Rightarrow> JNull | Some v \<Rightarrow> v)"

definition digit_char :: "nat \<Rightarrow> char" where
  "digit_char d = char_of (48 + d)"

fun nat_str :: "nat \<Rightarrow> string" where
  "nat_str n = (if n < 10 then [digit_char n] else nat_str (n div 10) @ [digit_char (n mod 10)])"

declare nat_str.simps [simp del]

fun py_str :: "jval \<Rightarrow> string" where
  "py_str JNull = ''None''"
| "py_str (JNum n) = (if n < 0 then CHR ''-'' # nat_str (nat (- n)) else nat_str (nat n))"
| "py_str (JStr s) = s"

text \<open>The module-level configuration, read from the process environment.\<close>

record config =
  S3_BUCKET_NAME :: string
  API_URL_SWOB :: string
  API_URL_HYDROMETRIC :: string
  API_URL_CLIMATE_HOURLY :: string
  DEFAULT_INITIAL_LOOKBACK_MIN :: int
  CLIMATE_HOURLY_LOOKBACK_DAYS :: int
  FETCH_LIMIT :: int
  MIN_QA_THRESHOLD :: int
  MAX_FUTURE_DAYS :: int
  INCREMENTAL_OVERLAP_MIN :: int

definition default_config :: config where
  "default_config = \<lparr> S3_BUCKET_NAME = ''flume-bucket'',
     API_URL_SWOB = ''https://api.weather.gc.ca/collections/swob-realtime/items?lang=en'',
     API_URL_HYDROMETRIC = ''https://api.weather.gc.ca/collections/hydrometric-realtime/items?lang=en'',
     API_URL_CLIMATE_HOURLY = ''https://api.weather.gc.ca/collections/climate-hourly/items?lang=en'',
     DEFAULT_INITIAL_LOOKBACK_MIN = 60, CLIMATE_HOURLY_LOOKBACK_DAYS = 7,
     FETCH_LIMIT = 500, MIN_QA_THRESHOLD = 0, MAX_FUTURE_DAYS = 1,
     INCREMENTAL_OVERLAP_MIN = 15 \<rparr>"

text \<open>A feature of the API: \<^verbatim>\<open>feat.get("id")\<close> and \<^verbatim>\<open>feat.get("properties") or {}\<close>.\<close>

record feature =
  fid :: jval
  properties :: props

text \<open>
  A link of a page: \<^verbatim>\<open>link.get("rel")\<close> and \<^verbatim>\<open>link.get("href")\<close>, an absent entry
  being the empty string (the code only compares \<open>rel\<close> with \<^verbatim>\<open>"next"\<close> and tests
  \<open>href\<close> for truth).
\<close>

record link =
  rel :: string
  href :: string

text \<open>
  The query of the first request: \<^verbatim>\<open>{"datetime": "<start>/..", "lang": "en",
  "limit": str(limit)}\<close>. A request is a URL with or without the query.
\<close>

record query =
  datetime_from :: instant
  lang :: string
  limit :: int

type_synonym request = "string \<times> query option"

text \<open>
  What \<^verbatim>\<open>requests.get\<close>, \<^verbatim>\<open>raise_for_status\<close> and \<^verbatim>\<open>resp.json()\<close> make of one request:
  an \<^verbatim>\<open>HTTPError\<close> with its status code, any other exception (connection failure,
  timeout, a body that is not JSON), or a page with its \<^verbatim>\<open>features\<close> and \<^verbatim>\<open>links\<close>
  (absent or \<^verbatim>\<open>null\<close> being the empty list).
\<close>

datatype response =
  HttpError nat
| TransportFailure
| Page "feature list" "link list"

section \<open>Time parser and validator\<close>

text \<open>
  \<^verbatim>\<open>validate_timestamp\<close> is only called with a datetime, which is never false in Python,
  so the guard \<^verbatim>\<open>if not dt\<close> has no branch here. In \<^verbatim>\<open>parse_iso_to_utc\<close> a value that
  is not a string makes every parsing attempt raise, and every exception is caught.
\<close>

definition validate_timestamp :: "config \<Rightarrow> instant \<Rightarrow> instant \<Rightarrow> bool" where
  "validate_timestamp cfg now dt =
     (if dt > now + days (MAX_FUTURE_DAYS cfg) then False
      else if dt < now - days 365 then False
      else True)"

definition parse_iso_to_utc ::
  "config \<Rightarrow> instant \<Rightarrow> (string \<Rightarrow> instant option) \<Rightarrow> jval \<Rightarrow> instant option" where
  "parse_iso_to_utc cfg now fromiso s =
     (if \<not> truthy s then None
      else (case (case s of JStr t \<Rightarrow> fromiso t | _ \<Rightarrow> None) of
              None \<Rightarrow> None
            | Some dt \<Rightarrow> if \<not> validate_timestamp cfg now dt then None else Some dt))"

definition parse_stored :: "config \<Rightarrow> instant \<Rightarrow> instant \<Rightarrow> instant option" where
  "parse_stored cfg now w = (if \<not> validate_timestamp cfg now w then None else Some w)"

definition get_observation_timestamp ::
  "config \<Rightarrow> instant \<Rightarrow> (string \<Rightarrow> instant option) \<Rightarrow> string \<Rightarrow> props \<Rightarrow> instant option" where
  "get_observation_timestamp cfg now fromiso name ps =
     (let timestamp_str =
            (if name = ''swob'' then py_or (dict_get ps ''date_tm-value'') (dict_get ps ''obs_date_tm'')
             else if name = ''hydrometric'' then dict_get ps ''DATETIME''
             else if name = ''climate_hourly'' then py_or (dict_get ps ''UTC_DATE'') (dict_get ps ''LOCAL_DATE'')
             else JNull);
          timestamp_str2 =
            (if \<not> truthy timestamp_str then dict_get ps ''processed_date_tm'' else timestamp_str)
      in parse_iso_to_utc cfg now fromiso timestamp_str2)"

text \<open>
  The pseudo-identifier \<^verbatim>\<open>f"unknown_{hash(str(props)[:100])}"\<close> uses Python's string hash;
  its decimal rendering is the parameter \<open>hash_str\<close>.
\<close>

definition get_station_id :: "(props \<Rightarrow> string) \<Rightarrow> string \<Rightarrow> props \<Rightarrow> jval \<Rightarrow> string" where
  "get_station_id hash_str name ps feat_id =
     (let station_key =
            (if name = ''swob'' then py_or (dict_get ps ''tc_id-value'') (dict_get ps ''msc_id-value'')
             else if name = ''hydrometric'' then dict_get ps ''STATION_NUMBER''
             else if name = ''climate_hourly'' then dict_get ps ''CLIMATE_IDENTIFIER''
             else JNull);
          station_key2 =
            (if \<not> truthy station_key then py_or feat_id (JStr (''unknown_'' @ hash_str ps))
             else station_key)
      in py_str station_key2)"

section \<open>Quality filter\<close>

definition critical_fields :: "string list" where
  "critical_fields = [''air_temp'', ''rel_hum'', ''stn_pres'']"

text \<open>
  The loop over the critical fields. Comparing a string with the integer threshold raises
  \<^verbatim>\<open>TypeError\<close> in Python.
\<close>

fun qa_loop :: "config \<Rightarrow> props \<Rightarrow> string list \<Rightarrow> error + bool" where
  "qa_loop cfg ps [] = Inr True"
| "qa_loop cfg ps (field # rest) =
     (case dict_get ps (field @ ''-qa'') of
        JNull \<Rightarrow> qa_loop cfg ps rest
      | JNum qa_value \<Rightarrow> if qa_value < MIN_QA_THRESHOLD cfg then Inr False else qa_loop cfg ps rest
      | JStr _ \<Rightarrow> Inl TypeError)"

definition is_high_quality_data :: "config \<Rightarrow> string \<Rightarrow> props \<Rightarrow> error + bool" where
  "is_high_quality_data cfg name ps =
     (if name \<noteq> ''swob'' then Inr True else qa_loop cfg ps critical_fields)"

section \<open>Paginated API client\<close>

text \<open>The first link with relation \<^verbatim>\<open>next\<close> and a non-empty \<open>href\<close>.\<close>

fun next_link :: "link list \<Rightarrow> string option" where
  "next_link [] = None"
| "next_link (l # ls) = (if rel l = ''next'' \<and> href l \<noteq> [] then Some (href l) else next_link ls)"

text \<open>
  The request the loop sends for \<open>next_url\<close>: with the parameters when the URL equals the
  start URL, bare otherwise.
\<close>

definition request_for :: "string \<Rightarrow> query \<Rightarrow> string \<Rightarrow> request" where
  "request_for start_url first_params next_url =
     (if next_url = start_url then (next_url, Some first_params) else (next_url, None))"

text \<open>
  The \<^verbatim>\<open>while next_url\<close> loop. The number of pages is unbounded, so the loop is a partial
  function: \<open>None\<close> is a fetch that never returns. \<open>Inl\<close> is the re-raised exception.
\<close>

partial_function (option) fetch_loop ::
  "(request \<Rightarrow> response) \<Rightarrow> string \<Rightarrow> query \<Rightarrow> string \<Rightarrow> feature list
     \<Rightarrow> (error + feature list) option" where
  "fetch_loop web start_url first_params next_url items =
     (if next_url = [] then Some (Inr items)
      else (case web (request_for start_url first_params next_url) of
              HttpError status \<Rightarrow> Some (Inr [])
            | TransportFailure \<Rightarrow> Some (Inl TransportError)
            | Page feats links \<Rightarrow>
                (case next_link links of
                   None \<Rightarrow> Some (Inr (items @ feats))
                 | Some u \<Rightarrow> fetch_loop web start_url first_params u (items @ feats))))"

text \<open>
  The only caller passes \<^verbatim>\<open>params = {"datetime": f"{fetch_start_dt.isoformat()}/..",
  "lang": "en"}\<close> and \<^verbatim>\<open>limit = FETCH_LIMIT\<close>; the function takes the start instant and
  the limit and builds the query of the first request.
\<close>

definition fetch_features_with_paging ::
  "(request \<Rightarrow> response) \<Rightarrow> string \<Rightarrow> instant \<Rightarrow> int \<Rightarrow> (error + feature list) option" where
  "fetch_features_with_paging web start_url start_dt lim =
     fetch_loop web start_url \<lparr> datetime_from = start_dt, lang = ''en'', limit = lim \<rparr> start_url []"

section \<open>Ingestion state and environment\<close>

text \<open>
  The persisted state is a JSON object: source name to sub-state. A sub-state is a
  dictionary whose keys may be absent (\<open>None\<close>); \<^verbatim>\<open>{}\<close> is \<open>empty_substate\<close>. The
  \<^verbatim>\<open>per_station\<close> dictionary is an association list with distinct keys, read with
  \<open>map_of\<close> and written with \<open>AList.update\<close> (a new key goes to the end, as in a Python
  dictionary). The float \<^verbatim>\<open>run_duration_seconds\<close> of the metadata is left out.
\<close>

record metadata =
  features_fetched :: nat
  features_new :: nat
  features_rejected_quality :: "nat option"
  features_rejected_timestamp :: "nat option"
  oldest_observation :: "instant option"
  newest_observation :: "instant option"

record substate =
  global_last_processed_dt :: "instant option"
  per_station :: "(string \<times> instant) list option"
  last_run_timestamp :: "instant option"
  stations_tracked :: "nat option"
  run_metadata :: "metadata option"

definition empty_substate :: substate where
  "empty_substate = \<lparr> global_last_processed_dt = None, per_station = None,
     last_run_timestamp = None, stations_tracked = None, run_metadata = None \<rparr>"

type_synonym state = "string \<rightharpoonup> substate"

text \<open>\<^verbatim>\<open>state.get(name, {})\<close>, also the value of \<^verbatim>\<open>state.setdefault(name, {})\<close>.\<close>

definition sub_get :: "state \<Rightarrow> string \<Rightarrow> substate" where
  "sub_get st name = (case st name of None \<Rightarrow> empty_substate | Some ns \<Rightarrow> ns)"

text \<open>
  What one endpoint run observes of the outside world: the clock, the HTTP server, the
  standard library's timestamp parser and string hash, and the write of the delta file
  with its upload (\<open>Some\<close> error when it raises).
\<close>

record env =
  now_utc :: instant
  requests_get :: "request \<Rightarrow> response"
  fromiso :: "string \<Rightarrow> instant option"
  hash_str :: "props \<Rightarrow> string"
  s3_put_delta :: "string \<Rightarrow> feature list \<Rightarrow> error option"

section \<open>Per-station watermark tracker\<close>

text \<open>The local variables of the loop over the fetched features.\<close>

record loop_state =
  cur_per_station :: "(string \<times> instant) list"
  new_features :: "feature list"
  max_seen_dt :: instant
  min_obs_dt :: "instant option"
  max_obs_dt :: "instant option"
  rejected_quality_count :: nat
  rejected_timestamp_count :: nat
  seen_ids :: "jval set"

text \<open>
  The body of \<^verbatim>\<open>if include:\<close>. A stored watermark that fails validation makes
  \<^verbatim>\<open>parse_iso_to_utc(existing) < obs_dt\<close> compare \<^verbatim>\<open>None\<close> with a datetime, which raises
  \<^verbatim>\<open>TypeError\<close>.
\<close>

definition accept_feature ::
  "config \<Rightarrow> env \<Rightarrow> string \<Rightarrow> instant \<Rightarrow> feature \<Rightarrow> loop_state \<Rightarrow> error + loop_state" where
  "accept_feature cfg e st_key obs_dt feat ls =
     (let ls3 = ls\<lparr> new_features := new_features ls @ [feat] \<rparr>;
          stored = ls3\<lparr> cur_per_station := AList.update st_key obs_dt (cur_per_station ls3) \<rparr>
      in case (if st_key \<noteq> [] then
                 (case map_of (cur_per_station ls3) st_key of
                    None \<Rightarrow> Inr stored
                  | Some existing \<Rightarrow>
                      (case parse_stored cfg (now_utc e) existing of
                         None \<Rightarrow> Inl TypeError
                       | Some existing_dt \<Rightarrow> if existing_dt < obs_dt then Inr stored else Inr ls3))
               else Inr ls3) of
           Inl err \<Rightarrow> Inl err
         | Inr ls4 \<Rightarrow> Inr (if obs_dt > max_seen_dt ls4 then ls4\<lparr> max_seen_dt := obs_dt \<rparr> else ls4))"

text \<open>The two \<^verbatim>\<open>if\<close> statements that track the oldest and newest observation seen.\<close>

definition track_observation :: "instant \<Rightarrow> loop_state \<Rightarrow> loop_state" where
  "track_observation obs_dt ls =
     ls\<lparr> min_obs_dt := (case min_obs_dt ls of
                          None \<Rightarrow> Some obs_dt
                        | Some m \<Rightarrow> if obs_dt < m then Some obs_dt else Some m),
         max_obs_dt := (case max_obs_dt ls of
                          None \<Rightarrow> Some obs_dt
                        | Some m \<Rightarrow> if obs_dt > m then Some obs_dt else Some m) \<rparr>"

text \<open>
  \<^verbatim>\<open>last_station_dt\<close>: the station's stored watermark, read back through the validating
  parser.
\<close>

definition last_station_dt :: "config \<Rightarrow> env \<Rightarrow> loop_state \<Rightarrow> string \<Rightarrow> instant option" where
  "last_station_dt cfg e ls st_key =
     (case map_of (cur_per_station ls) st_key of
        None \<Rightarrow> None
      | Some last_station_str \<Rightarrow> parse_stored cfg (now_utc e) last_station_str)"

text \<open>One iteration of \<^verbatim>\<open>for feat in features\<close>.\<close>

definition loop_step ::
  "config \<Rightarrow> env \<Rightarrow> string \<Rightarrow> feature \<Rightarrow> loop_state \<Rightarrow> error + loop_state" where
  "loop_step cfg e name feat ls =
     (let ps = properties feat; feat_id = fid feat
      in if feat_id \<in> seen_ids ls then Inr ls
         else
           let ls1 = ls\<lparr> seen_ids := insert feat_id (seen_ids ls) \<rparr>;
               st_key = get_station_id (hash_str e) name ps feat_id
           in case get_observation_timestamp cfg (now_utc e) (fromiso e) name ps of
                None \<Rightarrow> Inr (ls1\<lparr> rejected_timestamp_count := rejected_timestamp_count ls1 + 1 \<rparr>)
              | Some obs_dt \<Rightarrow>
                  let ls2 = track_observation obs_dt ls1;
                      include = (case last_station_dt cfg e ls2 st_key of
                                   None \<Rightarrow> True
                                 | Some l \<Rightarrow> obs_dt > l)
                  in if \<not> include then Inr ls2
                     else (case is_high_quality_data cfg name ps of
                             Inl err \<Rightarrow> Inl err
                           | Inr hq \<Rightarrow>
                               if \<not> hq
                               then Inr (ls2\<lparr> rejected_quality_count := rejected_quality_count ls2 + 1 \<rparr>)
                               else accept_feature cfg e st_key obs_dt feat ls2))"

text \<open>
  The whole loop. An exception leaves the loop with the variables as they were before
  the failing iteration: that iteration has not yet written to \<^verbatim>\<open>per_station\<close>.
\<close>

fun run_loop ::
  "config \<Rightarrow> env \<Rightarrow> string \<Rightarrow> feature list \<Rightarrow> loop_state \<Rightarrow> error option \<times> loop_state" where
  "run_loop cfg e name [] ls = (None, ls)"
| "run_loop cfg e name (feat # rest) ls =
     (case loop_step cfg e name feat ls of
        Inl err \<Rightarrow> (Some err, ls)
      | Inr ls' \<Rightarrow> run_loop cfg e name rest ls')"

section \<open>Endpoint processor\<close>

text \<open>
  The fetch window start. A stored global watermark that fails validation makes
  \<^verbatim>\<open>last_global_dt - timedelta(...)\<close> subtract from \<^verbatim>\<open>None\<close>: \<^verbatim>\<open>TypeError\<close>.
\<close>

definition fetch_start_dt :: "config \<Rightarrow> instant \<Rightarrow> string \<Rightarrow> state \<Rightarrow> error + instant" where
  "fetch_start_dt cfg now name st =
     (let last_global_str = global_last_processed_dt (sub_get st name)
      in if name = ''climate_hourly'' then
           (case last_global_str of
              Some w \<Rightarrow>
                (case parse_stored cfg now w of
                   None \<Rightarrow> Inl TypeError
                 | Some last_global_dt \<Rightarrow> Inr (last_global_dt - minutes (INCREMENTAL_OVERLAP_MIN cfg)))
            | None \<Rightarrow> Inr (now - days (CLIMATE_HOURLY_LOOKBACK_DAYS cfg)))
         else
           (case last_global_str of
              Some w \<Rightarrow>
                (case parse_stored cfg now w of
                   None \<Rightarrow> Inl TypeError
                 | Some last_global_dt \<Rightarrow> Inr (last_global_dt - minutes (INCREMENTAL_OVERLAP_MIN cfg)))
            | None \<Rightarrow> Inr (now - minutes (DEFAULT_INITIAL_LOOKBACK_MIN cfg))))"

text \<open>
  The result of one call of \<^verbatim>\<open>process_endpoint\<close>: the exception that left it, if any;
  the content of the \<^verbatim>\<open>state\<close> dictionary after the call (the function mutates its
  argument in place, so writes made before an exception stay visible to the caller);
  and the delta that was uploaded.
\<close>

record endpoint_result =
  raised :: "error option"
  state_after :: state
  delta :: "feature list option"

definition init_loop_state :: "(string \<times> instant) list \<Rightarrow> instant \<Rightarrow> loop_state" where
  "init_loop_state stations start =
     \<lparr> cur_per_station = stations, new_features = [], max_seen_dt = start,
       min_obs_dt = None, max_obs_dt = None, rejected_quality_count = 0,
       rejected_timestamp_count = 0, seen_ids = {} \<rparr>"

text \<open>The branch \<^verbatim>\<open>if not features\<close>: an empty run touches no watermark.\<close>

definition record_empty_run :: "env \<Rightarrow> string \<Rightarrow> state \<Rightarrow> endpoint_result" where
  "record_empty_run e name st =
     (let ns = sub_get st name
      in \<lparr> raised = None,
           state_after = st(name \<mapsto> ns\<lparr>
             last_run_timestamp := Some (now_utc e),
             run_metadata := Some \<lparr> features_fetched = 0, features_new = 0,
               features_rejected_quality = None, features_rejected_timestamp = None,
               oldest_observation = None, newest_observation = None \<rparr> \<rparr>),
           delta = None \<rparr>)"

text \<open>
  The \<^verbatim>\<open>per_station\<close> dictionary of a source:
  \<^verbatim>\<open>state.setdefault(name, {}).setdefault("per_station", {})\<close>.
\<close>

definition stations_of :: "state \<Rightarrow> string \<Rightarrow> (string \<times> instant) list" where
  "stations_of st name = (case per_station (sub_get st name) of None \<Rightarrow> [] | Some d \<Rightarrow> d)"

text \<open>The rest of \<^verbatim>\<open>process_endpoint\<close>, for a non-empty fetched batch.\<close>

definition process_features ::
  "config \<Rightarrow> env \<Rightarrow> string \<Rightarrow> string \<Rightarrow> state \<Rightarrow> instant \<Rightarrow> feature list \<Rightarrow> endpoint_result" where
  "process_features cfg e name key_prefix st start features =
     (let ns = sub_get st name;
          (exc, ls) = run_loop cfg e name features (init_loop_state (stations_of st name) start);
          mutated = st(name \<mapsto> ns\<lparr> per_station := Some (cur_per_station ls) \<rparr>)
      in case exc of
           Some err \<Rightarrow> \<lparr> raised = Some err, state_after = mutated, delta = None \<rparr>
         | None \<Rightarrow>
             (case (if new_features ls \<noteq> [] then s3_put_delta e key_prefix (new_features ls) else None) of
                Some err \<Rightarrow> \<lparr> raised = Some err, state_after = mutated, delta = None \<rparr>
              | None \<Rightarrow>
                  \<lparr> raised = None,
                    state_after = st(name \<mapsto> ns\<lparr>
                      global_last_processed_dt := Some (max_seen_dt ls),
                      per_station := Some (cur_per_station ls),
                      last_run_timestamp := Some (now_utc e),
                      stations_tracked := Some (length (cur_per_station ls)),
                      run_metadata := Some \<lparr> features_fetched = length features,
                        features_new = length (new_features ls),
                        features_rejected_quality = Some (rejected_quality_count ls),
                        features_rejected_timestamp = Some (rejected_timestamp_count ls),
                        oldest_observation = min_obs_dt ls,
                        newest_observation = max_obs_dt ls \<rparr> \<rparr>),
                    delta = (if new_features ls \<noteq> [] then Some (new_features ls) else None) \<rparr>))"

text \<open>
  \<^verbatim>\<open>process_endpoint\<close>. An exception of the fetch is caught here and the state returned
  as it is. \<open>None\<close> is a run whose fetch never returns.
\<close>

definition process_endpoint ::
  "config \<Rightarrow> env \<Rightarrow> string \<Rightarrow> string \<Rightarrow> state \<Rightarrow> string \<Rightarrow> endpoint_result option" where
  "process_endpoint cfg e name api_url st key_prefix =
     (case fetch_start_dt cfg (now_utc e) name st of
        Inl err \<Rightarrow> Some \<lparr> raised = Some err, state_after = st, delta = None \<rparr>
      | Inr start \<Rightarrow>
          (case fetch_features_with_paging (requests_get e) api_url start (FETCH_LIMIT cfg) of
             None \<Rightarrow> None
           | Some (Inl err) \<Rightarrow> Some \<lparr> raised = None, state_after = st, delta = None \<rparr>
           | Some (Inr features) \<Rightarrow>
               Some (if features = [] then record_empty_run e name st
                     else process_features cfg e name key_prefix st start features)))"

section \<open>Run orchestrator\<close>




section \<open>Notions used to state the properties\<close>

text \<open>The station key and the observation instant that an iteration computes for a feature.\<close>

definition station_of :: "env \<Rightarrow> string \<Rightarrow> feature \<Rightarrow> string" where
  "station_of e name feat = get_station_id (hash_str e) name (properties feat) (fid feat)"

definition obs_of :: "config \<Rightarrow> env \<Rightarrow> string \<Rightarrow> feature \<Rightarrow> instant option" where
  "obs_of cfg e name feat =
     get_observation_timestamp cfg (now_utc e) (fromiso e) name (properties feat)"


text \<open>
  A page is its \<^verbatim>\<open>features\<close> and its \<^verbatim>\<open>links\<close>. \<open>page_walk\<close> follows the loop's own
  requests from a URL through a list of pages: the server answers the request for the
  current URL with the next page of the list, whose \<^verbatim>\<open>next\<close> link is the URL of the page
  after it. The result is the URL that the last page links to.
\<close>

type_synonym page = "feature list \<times> link list"

fun page_walk ::
  "(request \<Rightarrow> response) \<Rightarrow> string \<Rightarrow> query \<Rightarrow> string \<Rightarrow> page list \<Rightarrow> string option" where
  "page_walk web start_url first_params u [] = Some u"
| "page_walk web start_url first_params u ((feats, links) # rest) =
     (if u \<noteq> [] \<and> web (request_for start_url first_params u) = Page feats links
      then (case next_link links of
              None \<Rightarrow> None
            | Some v \<Rightarrow> page_walk web start_url first_params v rest)
      else None)"

section \<open>Sample data\<close>

text \<open>
  The clock of the examples reads 2024-10-04T00:00:00Z, day 20000 of the epoch. The
  parser of the examples knows the timestamp strings that the sample features carry.
\<close>

definition sample_now :: instant where
  "sample_now = days 20000"

definition sample_fromiso :: "string \<Rightarrow> instant option" where
  "sample_fromiso = map_of
     [(''2024-10-03T23:30:00Z'', days 20000 - minutes 30),
      (''2024-10-03T23:31:00Z'', days 20000 - minutes 29),
      (''2024-10-03T23:32:00Z'', days 20000 - minutes 28),
      (''2024-10-06T00:00:00Z'', days 20002)]"

definition sample_env :: "(request \<Rightarrow> response) \<Rightarrow> env" where
  "sample_env web = \<lparr> now_utc = sample_now, requests_get = web, fromiso = sample_fromiso,
     hash_str = (\<lambda>ps. ''0''), s3_put_delta = (\<lambda>key_prefix feats. None) \<rparr>"

definition no_web :: "request \<Rightarrow> response" where
  "no_web r = HttpError 404"

text \<open>Two hydrometric observations without an \<^verbatim>\<open>id\<close>, from two stations, at two instants.\<close>

definition idless_a :: feature where
  "idless_a = \<lparr> fid = JNull, properties =
     [''STATION_NUMBER'' \<mapsto> JStr ''01AD003'', ''DATETIME'' \<mapsto> JStr ''2024-10-03T23:30:00Z''] \<rparr>"

definition idless_b :: feature where
  "idless_b = \<lparr> fid = JNull, properties =
     [''STATION_NUMBER'' \<mapsto> JStr ''02KF005'', ''DATETIME'' \<mapsto> JStr ''2024-10-03T23:31:00Z''] \<rparr>"

text \<open>
  The pagination protocol in the spec's words: the first request carries the full
  parameter set; while a page has a \<^verbatim>\<open>next\<close> link, that link is requested as a bare URL,
  with no parameters; the last page has no \<^verbatim>\<open>next\<close> link. \<open>bare_chain web r pages\<close> says
  that the server answers this sequence of requests, starting with \<open>r\<close>, with \<open>pages\<close>.
\<close>

fun bare_chain :: "(request \<Rightarrow> response) \<Rightarrow> request \<Rightarrow> page list \<Rightarrow> bool" where
  "bare_chain web r [] = False"
| "bare_chain web r [(feats, links)] = (web r = Page feats links \<and> next_link links = None)"
| "bare_chain web r ((feats, links) # p # rest) =
     (web r = Page feats links \<and>
      (case next_link links of None \<Rightarrow> False | Some u \<Rightarrow> bare_chain web (u, None) (p # rest)))"

text \<open>Hydrometric observations with an \<^verbatim>\<open>id\<close>, a station number and a timestamp string.\<close>

definition hydro_obs :: "string \<Rightarrow> string \<Rightarrow> string \<Rightarrow> feature" where
  "hydro_obs ident station stamp = \<lparr> fid = JStr ident, properties =
     [''STATION_NUMBER'' \<mapsto> JStr station, ''DATETIME'' \<mapsto> JStr stamp] \<rparr>"

definition second_page_url :: string where
  "second_page_url = ''https://api.weather.gc.ca/collections/hydrometric-realtime/items?offset=500''"

definition third_page_url :: string where
  "third_page_url = ''https://api.weather.gc.ca/collections/hydrometric-realtime/items?offset=1000''"

text \<open>
  A server with three pages. The first answers any request for the hydrometric URL and
  links to the second; the second links to the third; the answer to the third request is
  the parameter \<open>third\<close>.
\<close>

definition paged_web :: "response \<Rightarrow> request \<Rightarrow> response" where
  "paged_web third r =
     (if fst r = API_URL_HYDROMETRIC default_config
      then Page [hydro_obs ''h1'' ''01AD003'' ''2024-10-03T23:30:00Z'']
                [\<lparr> rel = ''self'', href = API_URL_HYDROMETRIC default_config \<rparr>,
                 \<lparr> rel = ''next'', href = second_page_url \<rparr>]
      else if r = (second_page_url, None)
      then Page [hydro_obs ''h2'' ''02KF005'' ''2024-10-03T23:31:00Z'']
                [\<lparr> rel = ''next'', href = third_page_url \<rparr>]
      else if r = (third_page_url, None) then third
      else HttpError 404)"

definition first_two_pages :: "page list" where
  "first_two_pages =
     [([hydro_obs ''h1'' ''01AD003'' ''2024-10-03T23:30:00Z''],
       [\<lparr> rel = ''self'', href = API_URL_HYDROMETRIC default_config \<rparr>,
        \<lparr> rel = ''next'', href = second_page_url \<rparr>]),
      ([hydro_obs ''h2'' ''02KF005'' ''2024-10-03T23:31:00Z''],
       [\<lparr> rel = ''next'', href = third_page_url \<rparr>])]"

definition third_page :: page where
  "third_page = ([hydro_obs ''h3'' ''01AD003'' ''2024-10-03T23:32:00Z''], [])"

text \<open>A server that is unreachable.\<close>

definition unreachable_web :: "request \<Rightarrow> response" where
  "unreachable_web r = TransportFailure"

text \<open>
  A server with two pages at one URL: the request with parameters gets the first page,
  whose \<^verbatim>\<open>next\<close> link is the same URL, and the bare request gets the second page.
\<close>

definition cyc_web :: "request \<Rightarrow> response" where
  "cyc_web r =
     (case snd r of
        Some q \<Rightarrow> Page [hydro_obs ''h1'' ''01AD003'' ''2024-10-03T23:30:00Z'']
                       [\<lparr> rel = ''next'', href = ''https://api/items'' \<rparr>]
      | None \<Rightarrow> Page [hydro_obs ''h2'' ''02KF005'' ''2024-10-03T23:31:00Z''] [])"

text \<open>Surface-weather observations: identifier, station, timestamp string, quality codes.\<close>

definition swob_obs :: "string \<Rightarrow> string \<Rightarrow> string \<Rightarrow> jval \<Rightarrow> feature" where
  "swob_obs ident station stamp air_temp_qa = \<lparr> fid = JStr ident, properties =
     [''tc_id-value'' \<mapsto> JStr station, ''date_tm-value'' \<mapsto> JStr stamp,
      ''air_temp-qa'' \<mapsto> air_temp_qa] \<rparr>"

definition qa_at_threshold :: props where
  "qa_at_threshold = [''air_temp-qa'' \<mapsto> JNum 0, ''stn_pres-qa'' \<mapsto> JNum 100]"

definition qa_below_threshold :: props where
  "qa_below_threshold = [''air_temp-qa'' \<mapsto> JNum 0, ''stn_pres-qa'' \<mapsto> JNum (- 1)]"

text \<open>A server that answers every request with one page, without a \<^verbatim>\<open>next\<close> link.\<close>

definition single_page_web :: "feature list \<Rightarrow> request \<Rightarrow> response" where
  "single_page_web feats r = Page feats []"

text \<open>
  A state of the surface-weather source whose global watermark is 366 days old, and one
  whose global and station watermarks are half an hour old.
\<close>

definition stale_state :: state where
  "stale_state = [''swob'' \<mapsto> empty_substate\<lparr>
     global_last_processed_dt := Some (sample_now - days 366),
     per_station := Some [(''YYZ'', sample_now - days 366)] \<rparr>]"

definition recent_state :: state where
  "recent_state = [''swob'' \<mapsto> empty_substate\<lparr>
     global_last_processed_dt := Some (days 20000 - minutes 30),
     per_station := Some [(''YYZ'', days 20000 - minutes 30), (''YVR'', days 20000 - minutes 30)] \<rparr>]"

text \<open>Two hydrometric features with neither an \<^verbatim>\<open>id\<close> nor a timestamp.\<close>

definition timeless_a :: feature where
  "timeless_a = \<lparr> fid = JNull, properties = [''STATION_NUMBER'' \<mapsto> JStr ''01AD003''] \<rparr>"

definition timeless_b :: feature where
  "timeless_b = \<lparr> fid = JNull, properties = [''STATION_NUMBER'' \<mapsto> JStr ''02KF005''] \<rparr>"

text \<open>
  The invariant of a sub-state: every station watermark is at most the global watermark
  (without a global watermark there are no station watermarks).
\<close>

definition watermark_invariant :: "substate \<Rightarrow> bool" where
  "watermark_invariant ns =
     (case global_last_processed_dt ns of
        None \<Rightarrow> (case per_station ns of None \<Rightarrow> True | Some d \<Rightarrow> d = [])
      | Some g \<Rightarrow> list_all (\<lambda>(k, w). w \<le> g) (case per_station ns of None \<Rightarrow> [] | Some d \<Rightarrow> d))"

text \<open>
  The overlap window of a run on \<open>recent_state\<close> delivers again the observation of
  station YYZ that set the watermarks.
\<close>

definition redelivered :: feature where
  "redelivered = swob_obs ''2024-10-03-2330-YYZ'' ''YYZ'' ''2024-10-03T23:30:00Z'' (JNum 100)"













section \<open>Basic facts about the loop\<close>

lemma nat_str_nonempty: "nat_str n \<noteq> []"
  by (subst nat_str.simps) simp

lemma py_str_truthy: "truthy v \<Longrightarrow> py_str v \<noteq> []"
  by (cases v) (simp_all add: nat_str_nonempty)

lemma get_station_id_nonempty: "get_station_id h name ps i \<noteq> []"
  unfolding get_station_id_def Let_def
  by (auto simp: py_or_def intro!: py_str_truthy)

lemma station_of_nonempty: "station_of e name feat \<noteq> []"
  by (simp add: station_of_def get_station_id_nonempty)

lemma track_observation_fields [simp]:
  "seen_ids (track_observation obs ls) = seen_ids ls"
  "cur_per_station (track_observation obs ls) = cur_per_station ls"
  "new_features (track_observation obs ls) = new_features ls"
  "max_seen_dt (track_observation obs ls) = max_seen_dt ls"
  "rejected_quality_count (track_observation obs ls) = rejected_quality_count ls"
  "rejected_timestamp_count (track_observation obs ls) = rejected_timestamp_count ls"
  by (simp_all add: track_observation_def)

lemma last_station_dt_cong:
  "cur_per_station ls' = cur_per_station ls \<Longrightarrow> last_station_dt cfg e ls' k = last_station_dt cfg e ls k"
  by (simp add: last_station_dt_def)

text \<open>The outcomes of one iteration that does not raise.\<close>

lemma loop_step_cases:
  assumes "loop_step cfg e name feat ls = Inr ls'"
  obtains
    (duplicate) "fid feat \<in> seen_ids ls" "ls' = ls"
  | (bad_time) "fid feat \<notin> seen_ids ls" "obs_of cfg e name feat = None"
      "ls' = ls\<lparr> seen_ids := insert (fid feat) (seen_ids ls),
                 rejected_timestamp_count := rejected_timestamp_count ls + 1 \<rparr>"
  | (not_newer) obs l where "fid feat \<notin> seen_ids ls" "obs_of cfg e name feat = Some obs"
      "last_station_dt cfg e ls (station_of e name feat) = Some l" "\<not> l < obs"
      "ls' = track_observation obs (ls\<lparr> seen_ids := insert (fid feat) (seen_ids ls) \<rparr>)"
  | (low_quality) obs where "fid feat \<notin> seen_ids ls" "obs_of cfg e name feat = Some obs"
      "is_high_quality_data cfg name (properties feat) = Inr False"
      "ls' = (track_observation obs (ls\<lparr> seen_ids := insert (fid feat) (seen_ids ls) \<rparr>))
               \<lparr> rejected_quality_count := rejected_quality_count ls + 1 \<rparr>"
  | (accepted) obs where "fid feat \<notin> seen_ids ls" "obs_of cfg e name feat = Some obs"
      "case last_station_dt cfg e ls (station_of e name feat) of None \<Rightarrow> True | Some l \<Rightarrow> l < obs"
      "is_high_quality_data cfg name (properties feat) = Inr True"
      "accept_feature cfg e (station_of e name feat) obs feat
         (track_observation obs (ls\<lparr> seen_ids := insert (fid feat) (seen_ids ls) \<rparr>)) = Inr ls'"
proof (cases "fid feat \<in> seen_ids ls")
  case True
  with assms have "ls' = ls" by (simp add: loop_step_def)
  with True show ?thesis by (rule duplicate)
next
  case fresh: False
  show ?thesis
  proof (cases "obs_of cfg e name feat")
    case None
    with assms fresh show ?thesis
      by (intro bad_time) (auto simp: loop_step_def obs_of_def)
  next
    case (Some obs)
    let ?ls2 = "track_observation obs (ls\<lparr> seen_ids := insert (fid feat) (seen_ids ls) \<rparr>)"
    have wm: "last_station_dt cfg e ?ls2 (station_of e name feat)
                = last_station_dt cfg e ls (station_of e name feat)"
      by (simp add: last_station_dt_def)
    show ?thesis
    proof (cases "case last_station_dt cfg e ls (station_of e name feat) of
                    None \<Rightarrow> True | Some l \<Rightarrow> l < obs")
      case False
      then obtain l where l: "last_station_dt cfg e ls (station_of e name feat) = Some l" "\<not> l < obs"
        by (auto split: option.splits)
      with assms fresh Some wm have "ls' = ?ls2"
        by (simp add: loop_step_def obs_of_def station_of_def Let_def)
      with fresh Some l show ?thesis by (intro not_newer)
    next
      case incl: True
      with wm have incl2: "(case last_station_dt cfg e ?ls2 (station_of e name feat) of
                    None \<Rightarrow> True | Some l \<Rightarrow> l < obs)" by simp
      show ?thesis
      proof (cases "is_high_quality_data cfg name (properties feat)")
        case (Inl err)
        with assms fresh Some incl2 show ?thesis
          by (simp add: loop_step_def obs_of_def station_of_def Let_def)
      next
        case (Inr hq)
        show ?thesis
        proof (cases hq)
          case True
          with assms fresh Some incl2 Inr
          have "accept_feature cfg e (station_of e name feat) obs feat ?ls2 = Inr ls'"
            by (simp add: loop_step_def obs_of_def station_of_def Let_def)
          with fresh Some incl Inr True show ?thesis by (intro accepted) simp_all
        next
          case False
          with assms fresh Some incl2 Inr
          have "ls' = ?ls2\<lparr> rejected_quality_count := rejected_quality_count ls + 1 \<rparr>"
            by (simp add: loop_step_def obs_of_def station_of_def Let_def)
          with fresh Some Inr False show ?thesis by (intro low_quality) simp_all
        qed
      qed
    qed
  qed
qed


lemma accept_feature_fields:
  assumes acc: "accept_feature cfg e k obs feat ls = Inr ls'" and k: "k \<noteq> []"
    and incl: "case last_station_dt cfg e ls k of None \<Rightarrow> True | Some l \<Rightarrow> l < obs"
  shows "new_features ls' = new_features ls @ [feat]"
    and "cur_per_station ls' = AList.update k obs (cur_per_station ls)"
    and "seen_ids ls' = seen_ids ls"
    and "max_seen_dt ls' = max (max_seen_dt ls) obs"
    and "rejected_timestamp_count ls' = rejected_timestamp_count ls"
    and "rejected_quality_count ls' = rejected_quality_count ls"
    and "\<And>T. map_of (cur_per_station ls) k = Some T \<Longrightarrow> T < obs"
proof -
  have stored: "\<And>T. map_of (cur_per_station ls) k = Some T \<Longrightarrow>
      parse_stored cfg (now_utc e) T = Some T \<and> T < obs"
  proof -
    fix T assume T: "map_of (cur_per_station ls) k = Some T"
    show "parse_stored cfg (now_utc e) T = Some T \<and> T < obs"
    proof (cases "parse_stored cfg (now_utc e) T")
      case None
      with acc k T show ?thesis by (simp add: accept_feature_def Let_def)
    next
      case (Some T')
      then have "T' = T" by (simp add: parse_stored_def split: if_splits)
      with Some incl T show ?thesis by (simp add: last_station_dt_def)
    qed
  qed
  show "\<And>T. map_of (cur_per_station ls) k = Some T \<Longrightarrow> T < obs"
    using stored by blast
  have eq: "ls' = (let ls4 = ls\<lparr> new_features := new_features ls @ [feat],
                        cur_per_station := AList.update k obs (cur_per_station ls) \<rparr>
                 in if obs > max_seen_dt ls4 then ls4\<lparr> max_seen_dt := obs \<rparr> else ls4)"
  proof (cases "map_of (cur_per_station ls) k")
    case None
    with acc k show ?thesis by (simp add: accept_feature_def Let_def)
  next
    case (Some T)
    with acc k stored [OF Some] show ?thesis by (simp add: accept_feature_def Let_def)
  qed
  show "new_features ls' = new_features ls @ [feat]" by (simp add: eq Let_def)
  show "cur_per_station ls' = AList.update k obs (cur_per_station ls)" by (simp add: eq Let_def)
  show "seen_ids ls' = seen_ids ls" by (simp add: eq Let_def)
  show "max_seen_dt ls' = max (max_seen_dt ls) obs" by (simp add: eq Let_def max_def)
  show "rejected_timestamp_count ls' = rejected_timestamp_count ls" by (simp add: eq Let_def)
  show "rejected_quality_count ls' = rejected_quality_count ls" by (simp add: eq Let_def)
qed


lemma loop_step_seen_ids:
  assumes "loop_step cfg e name feat ls = Inr ls'"
  shows "seen_ids ls' = insert (fid feat) (seen_ids ls)"
  using assms
proof (cases rule: loop_step_cases)
  case (accepted obs)
  let ?ls2 = "track_observation obs (ls\<lparr> seen_ids := insert (fid feat) (seen_ids ls) \<rparr>)"
  have incl: "case last_station_dt cfg e ?ls2 (station_of e name feat) of
                None \<Rightarrow> True | Some l \<Rightarrow> l < obs"
    using accepted(3) by (simp add: last_station_dt_def)
  from accept_feature_fields(3) [OF accepted(5) station_of_nonempty incl]
  show ?thesis by simp
qed auto

lemma loop_step_seen_before:
  "fid feat \<in> seen_ids ls \<Longrightarrow> loop_step cfg e name feat ls = Inr ls"
  by (simp add: loop_step_def)

lemma run_loop_append:
  "run_loop cfg e name (xs @ ys) ls =
     (case run_loop cfg e name xs ls of
        (None, ls') \<Rightarrow> run_loop cfg e name ys ls'
      | (Some err, ls') \<Rightarrow> (Some err, ls'))"
  by (induction xs arbitrary: ls) (auto split: sum.splits)

lemma run_loop_seen_ids:
  "run_loop cfg e name xs ls = (None, ls') \<Longrightarrow> seen_ids ls' = fid ` set xs \<union> seen_ids ls"
proof (induction xs arbitrary: ls)
  case Nil
  then show ?case by simp
next
  case (Cons x xs)
  then show ?case
    by (auto split: sum.splits dest!: loop_step_seen_ids)
qed

lemma run_loop_drop_seen:
  assumes "fid feat \<in> fid ` set pre \<union> seen_ids ls"
  shows "run_loop cfg e name (pre @ feat # post) ls = run_loop cfg e name (pre @ post) ls"
proof (cases "run_loop cfg e name pre ls")
  case (Pair exc ls')
  show ?thesis
  proof (cases exc)
    case None
    with Pair assms have "fid feat \<in> seen_ids ls'"
      by (simp add: run_loop_seen_ids)
    then show ?thesis using Pair None
      by (simp add: run_loop_append loop_step_seen_before)
  next
    case (Some err)
    then show ?thesis using Pair by (simp add: run_loop_append)
  qed
qed

text \<open>The result of the endpoint processor on a batch, read off the final loop variables.\<close>

lemma process_features_delta:
  "delta (process_features cfg e name key_prefix st start features) =
     (case run_loop cfg e name features (init_loop_state (stations_of st name) start) of
        (Some err, ls) \<Rightarrow> None
      | (None, ls) \<Rightarrow>
          if new_features ls \<noteq> [] \<and> s3_put_delta e key_prefix (new_features ls) = None
          then Some (new_features ls) else None)"
  by (simp add: process_features_def Let_def split: prod.splits option.splits)



text \<open>The defining equations that evaluate a run on the sample data.\<close>

lemmas run_defs =
  process_endpoint_def fetch_start_dt_def fetch_features_with_paging_def request_for_def
  record_empty_run_def process_features_def init_loop_state_def stations_of_def sub_get_def
  empty_substate_def loop_step_def accept_feature_def track_observation_def last_station_dt_def
  get_station_id_def get_observation_timestamp_def py_or_def dict_get_def
  parse_iso_to_utc_def parse_stored_def validate_timestamp_def
  is_high_quality_data_def critical_fields_def days_def minutes_def Let_def

lemmas sample_defs =
  sample_env_def sample_fromiso_def sample_now_def default_config_def

section \<open>Intra-batch deduplication\<close>

text \<open>
  C10. Deduplication keys on the raw \<^verbatim>\<open>id\<close> of a feature, and every feature without an
  \<^verbatim>\<open>id\<close> has the identifier \<^verbatim>\<open>None\<close>. So once the batch has delivered one feature
  without an \<^verbatim>\<open>id\<close>, any later feature without an \<^verbatim>\<open>id\<close> is skipped as a duplicate,
  whatever its station and observation: the loop, and the delta the run writes, are the same
  as if that feature had not been in the batch.
\<close>

theorem idless_features_dropped:
  assumes "fid first = JNull" and "first \<in> set pre" and "fid feat = JNull"
  shows "run_loop cfg e name (pre @ feat # post) ls = run_loop cfg e name (pre @ post) ls
       \<and> delta (process_features cfg e name key_prefix st start (pre @ feat # post))
         = delta (process_features cfg e name key_prefix st start (pre @ post))"
proof -
  from assms have "fid feat \<in> fid ` set pre \<union> seen_ids ls" for ls :: loop_state
    by (metis UnI1 imageI)
  then have eq: "run_loop cfg e name (pre @ feat # post) ls = run_loop cfg e name (pre @ post) ls"
    for ls by (rule run_loop_drop_seen)
  show ?thesis
    by (simp add: eq process_features_delta)
qed

theorem idless_features_dropped_witness:
  "fid idless_a = JNull \<and> fid idless_b = JNull
   \<and> station_of (sample_env no_web) ''hydrometric'' idless_a = ''01AD003''
   \<and> station_of (sample_env no_web) ''hydrometric'' idless_b = ''02KF005''
   \<and> obs_of default_config (sample_env no_web) ''hydrometric'' idless_b = Some (days 20000 - minutes 29)
   \<and> delta (process_features default_config (sample_env no_web) ''hydrometric''
        ''hydrometric_raw'' Map.empty (sample_now - minutes 60) [idless_a, idless_b])
     = Some [idless_a]"
proof -
  have a: "fid idless_a = JNull" and b: "fid idless_b = JNull"
    by (simp_all add: idless_a_def idless_b_def)
  have sa: "station_of (sample_env no_web) ''hydrometric'' idless_a = ''01AD003''"
    by (simp add: station_of_def get_station_id_def idless_a_def dict_get_def)
  have sb: "station_of (sample_env no_web) ''hydrometric'' idless_b = ''02KF005''"
    by (simp add: station_of_def get_station_id_def idless_b_def dict_get_def)
  have ob: "obs_of default_config (sample_env no_web) ''hydrometric'' idless_b
              = Some (days 20000 - minutes 29)"
    by (simp add: obs_of_def get_observation_timestamp_def idless_b_def dict_get_def
        parse_iso_to_utc_def sample_env_def sample_fromiso_def validate_timestamp_def
        sample_now_def default_config_def days_def minutes_def)
  have one: "delta (process_features default_config (sample_env no_web) ''hydrometric''
        ''hydrometric_raw'' Map.empty (sample_now - minutes 60) [idless_a]) = Some [idless_a]"
    by (simp add: run_defs sample_defs idless_a_def)
  from idless_features_dropped [of idless_a "[idless_a]" idless_b default_config
      "sample_env no_web" "''hydrometric''" "[]" _ "''hydrometric_raw''" Map.empty
      "sample_now - minutes 60"] a b
  have "delta (process_features default_config (sample_env no_web) ''hydrometric''
        ''hydrometric_raw'' Map.empty (sample_now - minutes 60) [idless_a, idless_b])
      = delta (process_features default_config (sample_env no_web) ''hydrometric''
        ''hydrometric_raw'' Map.empty (sample_now - minutes 60) [idless_a])"
    by simp
  with a b sa sb ob one show ?thesis by simp
qed

section \<open>Paginated fetch\<close>

lemma next_link_nonempty: "next_link ls = Some u \<Longrightarrow> u \<noteq> []"
  by (induction ls) (auto split: if_splits)

text \<open>After a walk through pages, the loop stands at the reached URL with their features.\<close>

lemma fetch_loop_walk:
  "page_walk web s fp u pages = Some v \<Longrightarrow>
   fetch_loop web s fp u items = fetch_loop web s fp v (items @ concat (map fst pages))"
proof (induction pages arbitrary: u items)
  case Nil
  then show ?case by simp
next
  case (Cons p pages)
  obtain feats links where p: "p = (feats, links)" by (cases p)
  from Cons.prems p have u: "u \<noteq> []" and w: "web (request_for s fp u) = Page feats links"
    by (auto split: if_splits)
  from Cons.prems p u w obtain n where n: "next_link links = Some n"
    and rest: "page_walk web s fp n pages = Some v"
    by (auto split: option.splits)
  have "fetch_loop web s fp u items = fetch_loop web s fp n (items @ feats)"
    by (subst fetch_loop.simps) (simp add: u w n)
  also have "\<dots> = fetch_loop web s fp v ((items @ feats) @ concat (map fst pages))"
    by (rule Cons.IH [OF rest])
  finally show ?case by (simp add: p)
qed

lemma page_walk_nonempty:
  "page_walk web s fp u pages = Some v \<Longrightarrow> u \<noteq> [] \<Longrightarrow> v \<noteq> []"
proof (induction pages arbitrary: u)
  case Nil
  then show ?case by simp
next
  case (Cons p pages)
  then show ?case
    by (cases p) (auto split: if_splits option.splits dest: next_link_nonempty)
qed

lemma fetch_after_walk:
  assumes "page_walk web s fp s pages = Some v" and "s \<noteq> []"
  shows "fetch_loop web s fp s [] =
     (case web (request_for s fp v) of
        HttpError status \<Rightarrow> Some (Inr [])
      | TransportFailure \<Rightarrow> Some (Inl TransportError)
      | Page feats links \<Rightarrow>
          (case next_link links of
             None \<Rightarrow> Some (Inr (concat (map fst pages) @ feats))
           | Some u \<Rightarrow> fetch_loop web s fp u (concat (map fst pages) @ feats)))"
proof -
  have v: "v \<noteq> []" using assms by (rule page_walk_nonempty)
  have "fetch_loop web s fp s [] = fetch_loop web s fp v (concat (map fst pages))"
    using fetch_loop_walk [OF assms(1), of "[]"] by simp
  also have "\<dots> = (case web (request_for s fp v) of
        HttpError status \<Rightarrow> Some (Inr [])
      | TransportFailure \<Rightarrow> Some (Inl TransportError)
      | Page feats links \<Rightarrow>
          (case next_link links of
             None \<Rightarrow> Some (Inr (concat (map fst pages) @ feats))
           | Some u \<Rightarrow> fetch_loop web s fp u (concat (map fst pages) @ feats)))"
    by (subst fetch_loop.simps) (simp add: v)
  finally show ?thesis .
qed

lemma bare_chain_complete:
  assumes "bare_chain web (request_for s fp u) pages"
    and "\<forall>p \<in> set pages. next_link (snd p) \<noteq> Some s" and "u \<noteq> []"
  shows "fetch_loop web s fp u items = Some (Inr (items @ concat (map fst pages)))"
  using assms
proof (induction pages arbitrary: u items)
  case Nil
  then show ?case by simp
next
  case (Cons p pages)
  obtain feats links where p: "p = (feats, links)" by (cases p)
  show ?case
  proof (cases pages)
    case Nil
    with Cons.prems p have "web (request_for s fp u) = Page feats links" "next_link links = None"
      by auto
    then show ?thesis using Cons.prems(3) Nil p
      by (subst fetch_loop.simps) simp
  next
    case (Cons q qs)
    with Cons.prems(1) p obtain n where w: "web (request_for s fp u) = Page feats links"
      and n: "next_link links = Some n" and ch: "bare_chain web (n, None) pages"
      by (auto split: option.splits)
    from Cons.prems(2) p n have ns: "n \<noteq> s" by auto
    have ne: "n \<noteq> []" using n by (rule next_link_nonempty)
    have req: "request_for s fp n = (n, None)" using ns by (simp add: request_for_def)
    have "fetch_loop web s fp u items = fetch_loop web s fp n (items @ feats)"
      using w n Cons.prems(3) by (subst fetch_loop.simps) simp
    also have "\<dots> = Some (Inr ((items @ feats) @ concat (map fst pages)))"
      using ch Cons.prems(2) ne by (intro Cons.IH) (simp_all add: req)
    finally show ?thesis by (simp add: p)
  qed
qed

text \<open>The walk of the three-page server through its first two pages.\<close>

lemma page_url_neq: "second_page_url \<noteq> API_URL_HYDROMETRIC default_config"
  "third_page_url \<noteq> API_URL_HYDROMETRIC default_config" "second_page_url \<noteq> third_page_url"
  "second_page_url \<noteq> []" "third_page_url \<noteq> []"
  by (simp_all add: second_page_url_def third_page_url_def default_config_def)

lemma paged_web_walk:
  "page_walk (paged_web third) (API_URL_HYDROMETRIC default_config) fp
     (API_URL_HYDROMETRIC default_config) first_two_pages = Some (third_page_url)"
  by (simp add: first_two_pages_def paged_web_def request_for_def page_url_neq)
     (simp add: default_config_def)

text \<open>
  C4 (as amended). An HTTP-status error on any page, after any number of good pages, makes
  \<open>fetch_features_with_paging\<close> return the empty list, not the features gathered so far. A
  transport failure on any page is raised by \<open>fetch_features_with_paging\<close>; the endpoint
  processor catches it and returns normally, with the state as it was and no delta, so the
  exception does not leave \<open>process_endpoint\<close>.
\<close>

theorem fetch_failure_handling:
  assumes "page_walk (requests_get e) api_url
             \<lparr> datetime_from = start, lang = ''en'', limit = FETCH_LIMIT cfg \<rparr>
             api_url pages = Some u"
    and "api_url \<noteq> []"
    and "fetch_start_dt cfg (now_utc e) name st = Inr start"
  shows "(\<forall>status. requests_get e (request_for api_url
               \<lparr> datetime_from = start, lang = ''en'', limit = FETCH_LIMIT cfg \<rparr> u) = HttpError status
           \<longrightarrow> fetch_features_with_paging (requests_get e) api_url start (FETCH_LIMIT cfg)
                 = Some (Inr []))
       \<and> (requests_get e (request_for api_url
               \<lparr> datetime_from = start, lang = ''en'', limit = FETCH_LIMIT cfg \<rparr> u) = TransportFailure
           \<longrightarrow> fetch_features_with_paging (requests_get e) api_url start (FETCH_LIMIT cfg)
                 = Some (Inl TransportError)
               \<and> process_endpoint cfg e name api_url st key_prefix
                 = Some \<lparr> raised = None, state_after = st, delta = None \<rparr>)"
proof -
  note after = fetch_after_walk [OF assms(1,2)]
  have http: "fetch_features_with_paging (requests_get e) api_url start (FETCH_LIMIT cfg) = Some (Inr [])"
    if "requests_get e (request_for api_url
          \<lparr> datetime_from = start, lang = ''en'', limit = FETCH_LIMIT cfg \<rparr> u) = HttpError status"
    for status
    using after that by (simp add: fetch_features_with_paging_def)
  have transport: "fetch_features_with_paging (requests_get e) api_url start (FETCH_LIMIT cfg)
      = Some (Inl TransportError)"
    if "requests_get e (request_for api_url
          \<lparr> datetime_from = start, lang = ''en'', limit = FETCH_LIMIT cfg \<rparr> u) = TransportFailure"
    using after that by (simp add: fetch_features_with_paging_def)
  have caught: "process_endpoint cfg e name api_url st key_prefix
      = Some \<lparr> raised = None, state_after = st, delta = None \<rparr>"
    if "fetch_features_with_paging (requests_get e) api_url start (FETCH_LIMIT cfg)
      = Some (Inl TransportError)"
    using that assms(3) by (simp add: process_endpoint_def)
  from http transport caught show ?thesis by blast
qed

lemma sample_fresh_start:
  "fetch_start_dt default_config (now_utc (sample_env web)) ''hydrometric'' Map.empty
     = Inr (sample_now - minutes 60)"
  by (simp add: fetch_start_dt_def sub_get_def empty_substate_def sample_env_def default_config_def
      Let_def)

theorem fetch_failure_handling_witness:
  "fetch_features_with_paging (paged_web (HttpError 503)) (API_URL_HYDROMETRIC default_config)
     (sample_now - minutes 60) 500 = Some (Inr [])
   \<and> fetch_features_with_paging (paged_web TransportFailure) (API_URL_HYDROMETRIC default_config)
       (sample_now - minutes 60) 500 = Some (Inl TransportError)
   \<and> process_endpoint default_config (sample_env (paged_web TransportFailure)) ''hydrometric''
       (API_URL_HYDROMETRIC default_config) Map.empty ''hydrometric_raw''
     = Some \<lparr> raised = None, state_after = Map.empty, delta = None \<rparr>"
proof -
  have url: "API_URL_HYDROMETRIC default_config \<noteq> []"
    by (simp add: default_config_def)
  have lim: "FETCH_LIMIT default_config = 500"
    by (simp add: default_config_def)
  have walk: "page_walk (requests_get (sample_env (paged_web third)))
      (API_URL_HYDROMETRIC default_config)
      \<lparr> datetime_from = sample_now - minutes 60, lang = ''en'', limit = FETCH_LIMIT default_config \<rparr>
      (API_URL_HYDROMETRIC default_config) first_two_pages = Some third_page_url" for third
    using paged_web_walk by (simp add: sample_env_def)
  have req: "paged_web third
      (request_for (API_URL_HYDROMETRIC default_config) fp third_page_url) = third" for third fp
    using page_url_neq by (simp add: paged_web_def request_for_def)
  have get: "requests_get (sample_env web) = web" for web
    by (simp add: sample_env_def)
  from fetch_failure_handling [OF walk url sample_fresh_start, of "HttpError 503" "''hydrometric_raw''"]
  have 1: "fetch_features_with_paging (paged_web (HttpError 503))
      (API_URL_HYDROMETRIC default_config) (sample_now - minutes 60) 500 = Some (Inr [])"
    by (simp add: req get lim)
  from fetch_failure_handling [OF walk url sample_fresh_start, of TransportFailure "''hydrometric_raw''"]
  have 2: "fetch_features_with_paging (paged_web TransportFailure)
        (API_URL_HYDROMETRIC default_config) (sample_now - minutes 60) 500 = Some (Inl TransportError)
      \<and> process_endpoint default_config (sample_env (paged_web TransportFailure)) ''hydrometric''
          (API_URL_HYDROMETRIC default_config) Map.empty ''hydrometric_raw''
        = Some \<lparr> raised = None, state_after = Map.empty, delta = None \<rparr>"
    by (simp add: req get lim)
  from 1 2 show ?thesis by simp
qed

text \<open>
  The claim as stated fails where the server is unreachable on the first request: the fetch
  raises, and \<open>process_endpoint\<close> returns without an exception.
\<close>

theorem transport_failure_counterexample:
  "fetch_features_with_paging unreachable_web (API_URL_SWOB default_config)
     (sample_now - minutes 60) 500 = Some (Inl TransportError)
   \<and> map_option raised
       (process_endpoint default_config (sample_env unreachable_web) ''swob''
          (API_URL_SWOB default_config) Map.empty ''swob_raw'') = Some None"
  by (simp add: process_endpoint_def fetch_start_dt_def fetch_features_with_paging_def
      fetch_loop.simps request_for_def sub_get_def empty_substate_def sample_defs
      unreachable_web_def days_def minutes_def)

text \<open>
  C9 (as amended). When the server answers the first request, sent with the full parameter
  set to a non-empty start URL, and then each \<^verbatim>\<open>next\<close> link requested as a bare URL, with a
  finite chain of pages, and no \<^verbatim>\<open>next\<close> link of the chain equals the start URL, the fetch
  returns exactly the concatenation of the pages' features, in page order. (A \<^verbatim>\<open>next\<close>
  link equal to the start URL is requested with the parameters of the first request.)
\<close>

theorem pagination_complete:
  assumes "bare_chain web (start_url, Some \<lparr> datetime_from = start_dt, lang = ''en'', limit = lim \<rparr>) pages"
    and "start_url \<noteq> []"
    and "\<forall>p \<in> set pages. next_link (snd p) \<noteq> Some start_url"
  shows "fetch_features_with_paging web start_url start_dt lim = Some (Inr (concat (map fst pages)))"
proof -
  have "bare_chain web
      (request_for start_url \<lparr> datetime_from = start_dt, lang = ''en'', limit = lim \<rparr> start_url) pages"
    using assms(1) by (simp add: request_for_def)
  from bare_chain_complete [OF this assms(3,2), of "[]"] show ?thesis
    by (simp add: fetch_features_with_paging_def)
qed

theorem pagination_complete_witness:
  "fetch_features_with_paging (paged_web (Page (fst third_page) (snd third_page)))
     (API_URL_HYDROMETRIC default_config) (sample_now - minutes 60) 500
   = Some (Inr [hydro_obs ''h1'' ''01AD003'' ''2024-10-03T23:30:00Z'',
                hydro_obs ''h2'' ''02KF005'' ''2024-10-03T23:31:00Z'',
                hydro_obs ''h3'' ''01AD003'' ''2024-10-03T23:32:00Z''])"
proof -
  have chain: "bare_chain (paged_web (Page (fst third_page) (snd third_page)))
      (API_URL_HYDROMETRIC default_config,
       Some \<lparr> datetime_from = sample_now - minutes 60, lang = ''en'', limit = 500 \<rparr>)
      (first_two_pages @ [third_page])"
    using page_url_neq by (simp add: first_two_pages_def third_page_def paged_web_def)
  have url: "API_URL_HYDROMETRIC default_config \<noteq> []"
    by (simp add: default_config_def)
  have links: "\<forall>p \<in> set (first_two_pages @ [third_page]).
      next_link (snd p) \<noteq> Some (API_URL_HYDROMETRIC default_config)"
    using page_url_neq by (simp add: first_two_pages_def third_page_def)
  from pagination_complete [OF chain url links] show ?thesis
    by (simp add: first_two_pages_def third_page_def)
qed

text \<open>
  The claim as stated fails for a \<^verbatim>\<open>next\<close> link that equals the start URL: the server has
  the two-page chain of the claim, but the loop sends the parameters again, gets the first
  page again, and never returns.
\<close>

lemma cyc_web_never_returns:
  assumes run: "fetch_loop web s fp u items = Some y"
  shows "\<not> (web = cyc_web \<and> s = ''https://api/items'' \<and> u = ''https://api/items'')"
proof (rule fetch_loop.raw_induct
    [where P = "\<lambda>web s fp u items y.
        \<not> (web = cyc_web \<and> s = ''https://api/items'' \<and> u = ''https://api/items'')",
     OF _ run])
  fix f :: "(request \<Rightarrow> response) \<Rightarrow> string \<Rightarrow> query \<Rightarrow> string \<Rightarrow> feature list
              \<Rightarrow> (error + feature list) option"
  fix web s fp u items y
  assume IH: "\<And>web s fp u items y. f web s fp u items = Some y \<Longrightarrow>
      \<not> (web = cyc_web \<and> s = ''https://api/items'' \<and> u = ''https://api/items'')"
    and body: "(if u = [] then Some (Inr items)
      else case web (request_for s fp u) of
           HttpError status \<Rightarrow> Some (Inr [])
           | TransportFailure \<Rightarrow> Some (Inl TransportError)
           | Page feats links \<Rightarrow>
               (case next_link links of None \<Rightarrow> Some (Inr (items @ feats))
                | Some v \<Rightarrow> f web s fp v (items @ feats))) = Some y"
  show "\<not> (web = cyc_web \<and> s = ''https://api/items'' \<and> u = ''https://api/items'')"
  proof
    assume c: "web = cyc_web \<and> s = ''https://api/items'' \<and> u = ''https://api/items''"
    with body have "f cyc_web ''https://api/items'' fp ''https://api/items''
        (items @ [hydro_obs ''h1'' ''01AD003'' ''2024-10-03T23:30:00Z'']) = Some y"
      by (simp add: request_for_def cyc_web_def)
    from IH [OF this] show False by simp
  qed
qed

theorem next_link_to_start_counterexample:
  "bare_chain cyc_web
     (''https://api/items'', Some \<lparr> datetime_from = sample_now - minutes 60, lang = ''en'', limit = 500 \<rparr>)
     [([hydro_obs ''h1'' ''01AD003'' ''2024-10-03T23:30:00Z''],
       [\<lparr> rel = ''next'', href = ''https://api/items'' \<rparr>]),
      ([hydro_obs ''h2'' ''02KF005'' ''2024-10-03T23:31:00Z''], [])]
   \<and> fetch_features_with_paging cyc_web ''https://api/items'' (sample_now - minutes 60) 500 = None"
proof -
  have "fetch_features_with_paging cyc_web ''https://api/items'' (sample_now - minutes 60) 500 = None"
  proof (cases "fetch_features_with_paging cyc_web ''https://api/items'' (sample_now - minutes 60) 500")
    case None
    then show ?thesis .
  next
    case (Some y)
    then show ?thesis
      unfolding fetch_features_with_paging_def
      using cyc_web_never_returns by blast
  qed
  then show ?thesis by (simp add: cyc_web_def)
qed

section \<open>Fetch window\<close>

lemma fetch_start_dt_fresh:
  assumes "global_last_processed_dt (sub_get st name) = None"
  shows "fetch_start_dt cfg now name st =
     Inr (if name = ''climate_hourly'' then now - days (CLIMATE_HOURLY_LOOKBACK_DAYS cfg)
          else now - minutes (DEFAULT_INITIAL_LOOKBACK_MIN cfg))"
  using assms by (simp add: fetch_start_dt_def Let_def)

lemma fetch_start_dt_incremental:
  assumes "global_last_processed_dt (sub_get st name) = Some w"
    and "validate_timestamp cfg now w"
  shows "fetch_start_dt cfg now name st = Inr (w - minutes (INCREMENTAL_OVERLAP_MIN cfg))"
  using assms by (simp add: fetch_start_dt_def parse_stored_def Let_def)

lemma fetch_start_dt_rejected_watermark:
  assumes "global_last_processed_dt (sub_get st name) = Some w"
    and "\<not> validate_timestamp cfg now w"
  shows "fetch_start_dt cfg now name st = Inl TypeError"
  using assms by (simp add: fetch_start_dt_def parse_stored_def Let_def)

text \<open>
  C6. With a prior global watermark the fetch start should be the watermark minus the
  overlap. The code reads the watermark through the validating parser, which answers
  \<^verbatim>\<open>None\<close> for an instant more than 365 days old; subtracting the overlap from \<^verbatim>\<open>None\<close>
  raises \<^verbatim>\<open>TypeError\<close>. For a watermark 366 days old no fetch start is derived and the
  endpoint run ends with that exception.
\<close>

theorem stale_watermark_raises:
  "global_last_processed_dt (sub_get stale_state ''swob'') = Some (sample_now - days 366)
   \<and> fetch_start_dt default_config sample_now ''swob'' stale_state = Inl TypeError
   \<and> process_endpoint default_config (sample_env (single_page_web [])) ''swob''
       (API_URL_SWOB default_config) stale_state ''swob_raw''
     = Some \<lparr> raised = Some TypeError, state_after = stale_state, delta = None \<rparr>"
  by (simp add: process_endpoint_def fetch_start_dt_def parse_stored_def validate_timestamp_def
      sub_get_def stale_state_def empty_substate_def sample_defs days_def minutes_def Let_def)

section \<open>Quality filter\<close>

lemma qa_loop_numeric:
  assumes "\<forall>field \<in> set flds. \<forall>s. dict_get ps (field @ ''-qa'') \<noteq> JStr s"
  shows "qa_loop cfg ps flds =
     Inr (\<not> (\<exists>field \<in> set flds. \<exists>q. dict_get ps (field @ ''-qa'') = JNum q
                \<and> q < MIN_QA_THRESHOLD cfg))"
  using assms
proof (induction flds)
  case Nil
  then show ?case by simp
next
  case (Cons field flds)
  then have IH: "qa_loop cfg ps flds =
     Inr (\<not> (\<exists>field \<in> set flds. \<exists>q. dict_get ps (field @ ''-qa'') = JNum q
                \<and> q < MIN_QA_THRESHOLD cfg))"
    by simp
  show ?case
  proof (cases "dict_get ps (field @ ''-qa'')")
    case JNull
    then show ?thesis using IH by simp
  next
    case (JNum q)
    then show ?thesis using IH by auto
  next
    case (JStr s)
    with Cons.prems show ?thesis by simp
  qed
qed

text \<open>
  C7. For the hydrometric and climate-hourly sources (any source but \<^verbatim>\<open>swob\<close>) the filter
  always passes. For a surface-weather feature whose quality codes of the critical fields
  are numbers where present, the feature is rejected exactly when some critical field has
  a code below \<open>MIN_QA_THRESHOLD\<close>: a code equal to the threshold and an absent code do
  not reject.
\<close>

theorem quality_filter:
  "(name \<noteq> ''swob'' \<longrightarrow> is_high_quality_data cfg name ps = Inr True)
   \<and> ((\<forall>field \<in> set critical_fields. \<forall>s. dict_get ps (field @ ''-qa'') \<noteq> JStr s) \<longrightarrow>
        is_high_quality_data cfg ''swob'' ps =
          Inr (\<not> (\<exists>field \<in> set critical_fields. \<exists>q.
                     dict_get ps (field @ ''-qa'') = JNum q \<and> q < MIN_QA_THRESHOLD cfg)))"
  by (simp add: is_high_quality_data_def qa_loop_numeric)

theorem quality_filter_witness:
  "is_high_quality_data default_config ''hydrometric'' qa_below_threshold = Inr True
   \<and> is_high_quality_data default_config ''climate_hourly'' qa_below_threshold = Inr True
   \<and> dict_get qa_at_threshold ''air_temp-qa'' = JNum (MIN_QA_THRESHOLD default_config)
   \<and> dict_get qa_at_threshold ''rel_hum-qa'' = JNull
   \<and> is_high_quality_data default_config ''swob'' qa_at_threshold = Inr True
   \<and> is_high_quality_data default_config ''swob'' qa_below_threshold = Inr False"
proof -
  have num: "\<forall>field \<in> set critical_fields. \<forall>s. dict_get qa_at_threshold (field @ ''-qa'') \<noteq> JStr s"
    "\<forall>field \<in> set critical_fields. \<forall>s. dict_get qa_below_threshold (field @ ''-qa'') \<noteq> JStr s"
    by (simp_all add: critical_fields_def dict_get_def qa_at_threshold_def qa_below_threshold_def)
  have 1: "is_high_quality_data default_config ''hydrometric'' qa_below_threshold = Inr True"
    using quality_filter [of "''hydrometric''" default_config qa_below_threshold] by simp
  have 2: "is_high_quality_data default_config ''climate_hourly'' qa_below_threshold = Inr True"
    using quality_filter [of "''climate_hourly''" default_config qa_below_threshold] by simp
  have 3: "is_high_quality_data default_config ''swob'' qa_at_threshold = Inr True"
    using quality_filter [of "''swob''" default_config qa_at_threshold] num(1)
    by (simp add: critical_fields_def dict_get_def qa_at_threshold_def default_config_def)
  have 4: "is_high_quality_data default_config ''swob'' qa_below_threshold = Inr False"
    using quality_filter [of "''swob''" default_config qa_below_threshold] num(2)
    by (simp add: critical_fields_def dict_get_def qa_below_threshold_def default_config_def)
  have 5: "dict_get qa_at_threshold ''air_temp-qa'' = JNum (MIN_QA_THRESHOLD default_config)"
    "dict_get qa_at_threshold ''rel_hum-qa'' = JNull"
    by (simp_all add: dict_get_def qa_at_threshold_def default_config_def)
  from 1 2 3 4 5 show ?thesis by simp
qed

section \<open>Timestamp rejection\<close>

text \<open>
  C8 (as amended). The parser returns no value, and raises nothing, for an absent or empty
  timestamp, for a string that the parsing cascade rejects, and for a parsed instant more
  than \<open>MAX_FUTURE_DAYS\<close> days ahead of now or more than 365 days in the past. An
  iteration on a feature whose timestamp yields no value does not raise and leaves the
  station watermarks, the global maximum and the accepted list as they are; it counts the
  feature as a timestamp rejection unless the feature's identifier was already seen in the
  batch, in which case the feature is skipped before its timestamp is read and is not
  counted.
\<close>

theorem timestamp_rejection:
  "parse_iso_to_utc cfg now fi JNull = None
   \<and> parse_iso_to_utc cfg now fi (JStr []) = None
   \<and> (fi s = None \<longrightarrow> parse_iso_to_utc cfg now fi (JStr s) = None)
   \<and> (fi s = Some t \<and> (now + days (MAX_FUTURE_DAYS cfg) < t \<or> t < now - days 365)
        \<longrightarrow> parse_iso_to_utc cfg now fi (JStr s) = None)
   \<and> (obs_of cfg e name feat = None \<longrightarrow>
        (\<exists>ls'. loop_step cfg e name feat ls = Inr ls'
           \<and> cur_per_station ls' = cur_per_station ls
           \<and> max_seen_dt ls' = max_seen_dt ls
           \<and> new_features ls' = new_features ls
           \<and> rejected_timestamp_count ls' =
               (if fid feat \<in> seen_ids ls then rejected_timestamp_count ls
                else rejected_timestamp_count ls + 1)))"
proof -
  have 1: "parse_iso_to_utc cfg now fi JNull = None" "parse_iso_to_utc cfg now fi (JStr []) = None"
    by (simp_all add: parse_iso_to_utc_def)
  have 2: "fi s = None \<longrightarrow> parse_iso_to_utc cfg now fi (JStr s) = None"
    by (simp add: parse_iso_to_utc_def)
  have 3: "fi s = Some t \<and> (now + days (MAX_FUTURE_DAYS cfg) < t \<or> t < now - days 365)
        \<longrightarrow> parse_iso_to_utc cfg now fi (JStr s) = None"
    by (auto simp: parse_iso_to_utc_def validate_timestamp_def)
  have 4: "\<exists>ls'. loop_step cfg e name feat ls = Inr ls'
           \<and> cur_per_station ls' = cur_per_station ls
           \<and> max_seen_dt ls' = max_seen_dt ls
           \<and> new_features ls' = new_features ls
           \<and> rejected_timestamp_count ls' =
               (if fid feat \<in> seen_ids ls then rejected_timestamp_count ls
                else rejected_timestamp_count ls + 1)"
    if "obs_of cfg e name feat = None"
    using that by (simp add: loop_step_def obs_of_def Let_def)
  from 1 2 3 4 show ?thesis by blast
qed

theorem timestamp_rejection_witness:
  "sample_fromiso ''2024-10-06T00:00:00Z'' = Some (days 20002)
   \<and> sample_now + days (MAX_FUTURE_DAYS default_config) < days 20002
   \<and> parse_iso_to_utc default_config sample_now sample_fromiso (JStr ''2024-10-06T00:00:00Z'') = None
   \<and> sample_fromiso ''yesterday'' = None
   \<and> parse_iso_to_utc default_config sample_now sample_fromiso (JStr ''yesterday'') = None
   \<and> (\<exists>ls'. loop_step default_config (sample_env no_web) ''hydrometric''
               (hydro_obs ''h9'' ''01AD003'' ''2024-10-06T00:00:00Z'')
               (init_loop_state [(''01AD003'', days 20000 - minutes 30)] (sample_now - minutes 60))
             = Inr ls'
           \<and> cur_per_station ls' = [(''01AD003'', days 20000 - minutes 30)]
           \<and> max_seen_dt ls' = sample_now - minutes 60
           \<and> new_features ls' = []
           \<and> rejected_timestamp_count ls' = 1)"
proof -
  have a: "sample_fromiso ''2024-10-06T00:00:00Z'' = Some (days 20002)"
    and b: "sample_now + days (MAX_FUTURE_DAYS default_config) < days 20002"
    and c: "sample_fromiso ''yesterday'' = None"
    by (simp_all add: sample_defs days_def)
  have d: "obs_of default_config (sample_env no_web) ''hydrometric''
             (hydro_obs ''h9'' ''01AD003'' ''2024-10-06T00:00:00Z'') = None"
    by (simp add: obs_of_def hydro_obs_def run_defs sample_defs)
  note thm1 = timestamp_rejection [of default_config sample_now sample_fromiso
      "''2024-10-06T00:00:00Z''" "days 20002" "sample_env no_web" "''hydrometric''"
      "hydro_obs ''h9'' ''01AD003'' ''2024-10-06T00:00:00Z''"
      "init_loop_state [(''01AD003'', days 20000 - minutes 30)] (sample_now - minutes 60)"]
  note thm2 = timestamp_rejection [of default_config sample_now sample_fromiso
      "''yesterday''" 0 "sample_env no_web" "''hydrometric''"
      "hydro_obs ''h9'' ''01AD003'' ''2024-10-06T00:00:00Z''"
      "init_loop_state [] 0"]
  have e: "parse_iso_to_utc default_config sample_now sample_fromiso (JStr ''2024-10-06T00:00:00Z'') = None"
    using thm1 a b by blast
  have f: "parse_iso_to_utc default_config sample_now sample_fromiso (JStr ''yesterday'') = None"
    using thm2 c by blast
  have g: "\<exists>ls'. loop_step default_config (sample_env no_web) ''hydrometric''
               (hydro_obs ''h9'' ''01AD003'' ''2024-10-06T00:00:00Z'')
               (init_loop_state [(''01AD003'', days 20000 - minutes 30)] (sample_now - minutes 60))
             = Inr ls'
           \<and> cur_per_station ls' = [(''01AD003'', days 20000 - minutes 30)]
           \<and> max_seen_dt ls' = sample_now - minutes 60
           \<and> new_features ls' = []
           \<and> rejected_timestamp_count ls' = 1"
    using thm1 d by (simp add: init_loop_state_def)
  from a b c e f g show ?thesis by blast
qed

text \<open>
  The claim as stated fails for a batch of two features without an \<^verbatim>\<open>id\<close> and without a
  timestamp: neither has an observation instant, and the run counts one timestamp
  rejection.
\<close>

theorem uncounted_rejection_counterexample:
  "obs_of default_config (sample_env no_web) ''hydrometric'' timeless_a = None
   \<and> obs_of default_config (sample_env no_web) ''hydrometric'' timeless_b = None
   \<and> map_option features_rejected_timestamp
       (run_metadata (sub_get (state_after
          (process_features default_config (sample_env no_web) ''hydrometric'' ''hydrometric_raw''
             Map.empty (sample_now - minutes 60) [timeless_a, timeless_b])) ''hydrometric''))
     = Some (Some 1)"
  by (simp add: obs_of_def timeless_a_def timeless_b_def run_defs sample_defs)

section \<open>Global watermark\<close>

text \<open>
  C1. The global watermark should never decrease over successful runs. The code starts
  \<^verbatim>\<open>max_seen_dt\<close> at the fetch start, which is the prior watermark minus the overlap, and
  writes it back as the new global watermark. A run whose overlap window delivers only
  the observation already accepted (nothing new is included) succeeds and writes a global
  watermark 15 minutes before the prior one.
\<close>

theorem global_watermark_regresses:
  "global_last_processed_dt (sub_get recent_state ''swob'') = Some (days 20000 - minutes 30)
   \<and> map_option (\<lambda>r. (raised r, delta r, global_last_processed_dt (sub_get (state_after r) ''swob'')))
       (process_endpoint default_config (sample_env (single_page_web [redelivered])) ''swob''
          (API_URL_SWOB default_config) recent_state ''swob_raw'')
     = Some (None, None, Some (days 20000 - minutes 45))
   \<and> days 20000 - minutes 45 < days 20000 - minutes 30"
  by (simp add: run_defs sample_defs fetch_loop.simps single_page_web_def recent_state_def
      redelivered_def swob_obs_def)

text \<open>
  C2. Every station watermark should stay at most the global watermark. In the same run
  the stations keep their watermarks while the global watermark moves back by the overlap:
  the invariant holds before the run and fails after it.
\<close>

theorem station_watermark_above_global:
  "watermark_invariant (sub_get recent_state ''swob'')
   \<and> map_option (\<lambda>r. (raised r, per_station (sub_get (state_after r) ''swob''),
                       global_last_processed_dt (sub_get (state_after r) ''swob''),
                       watermark_invariant (sub_get (state_after r) ''swob'')))
       (process_endpoint default_config (sample_env (single_page_web [redelivered])) ''swob''
          (API_URL_SWOB default_config) recent_state ''swob_raw'')
     = Some (None, Some [(''YYZ'', days 20000 - minutes 30), (''YVR'', days 20000 - minutes 30)],
             Some (days 20000 - minutes 45), False)"
  by (simp add: run_defs sample_defs fetch_loop.simps single_page_web_def recent_state_def
      redelivered_def swob_obs_def watermark_invariant_def)

section \<open>Run orchestrator: isolation of failures\<close>











section \<open>Inclusion against the station watermark\<close>


















end
